theory Spec2Isabelle
  imports Main "HOL-Library.AList" "HOL-Library.Char_ord" "HOL-Library.List_Lexorder"
begin

section \<open>Python values used by the sources\<close>

datatype error =
  IndexError | KeyError | AttributeError | RecursionError | UnboundLocalError

text \<open>\<^verbatim>\<open>'%d' % n\<close> for a non-negative integer.\<close>

function str_nat :: "nat \<Rightarrow> string" where
  "str_nat n =
     (if n < 10 then [''0123456789'' ! n]
      else str_nat (n div 10) @ [''0123456789'' ! (n mod 10)])"
  by pat_completeness auto
termination
  by (relation "measure id") auto

declare str_nat.simps [simp del]

section \<open>Text primitives\<close>

text \<open>
  Strings are lists of characters and are read as ASCII text: the character classes below
  are those of Python's \<^verbatim>\<open>re\<close> and \<^verbatim>\<open>str\<close> on code points below 128.
\<close>

definition is_word :: "char \<Rightarrow> bool" where
  "is_word c \<longleftrightarrow>
     c \<in> set ''abcdefghijklmnopqrstuvwxyzABCDEFGHIJKLMNOPQRSTUVWXYZ0123456789_''"

definition is_digit :: "char \<Rightarrow> bool" where
  "is_digit c \<longleftrightarrow> c \<in> set ''0123456789''"

definition is_space :: "char \<Rightarrow> bool" where
  "is_space c \<longleftrightarrow>
     c \<in> set [CHR '' '', CHR 0x09, CHR 0x0A, CHR 0x0B, CHR 0x0C, CHR 0x0D,
               CHR 0x1C, CHR 0x1D, CHR 0x1E, CHR 0x1F]"

definition lower_char :: "char \<Rightarrow> char" where
  "lower_char c =
     (case map_of (zip ''ABCDEFGHIJKLMNOPQRSTUVWXYZ'' ''abcdefghijklmnopqrstuvwxyz'') c of
        Some l \<Rightarrow> l
      | None \<Rightarrow> c)"

definition lower :: "string \<Rightarrow> string" where
  "lower s = map lower_char s"

definition lstrip :: "string \<Rightarrow> string" where
  "lstrip s = dropWhile is_space s"

definition rstrip :: "string \<Rightarrow> string" where
  "rstrip s = rev (dropWhile is_space (rev s))"

definition strip :: "string \<Rightarrow> string" where
  "strip s = rstrip (lstrip s)"

text \<open>\<^verbatim>\<open>s.strip(chars)\<close>.\<close>

definition strip_chars :: "char set \<Rightarrow> string \<Rightarrow> string" where
  "strip_chars cs s = rev (dropWhile (\<lambda>c. c \<in> cs) (rev (dropWhile (\<lambda>c. c \<in> cs) s)))"

text \<open>
  The non-empty pieces of a string between separators: \<^verbatim>\<open>re.split('[, ]+', s)\<close> and
  \<^verbatim>\<open>s.split()\<close>, with the empty pieces dropped (the callers skip them).
\<close>

fun tokens_acc :: "(char \<Rightarrow> bool) \<Rightarrow> string \<Rightarrow> string \<Rightarrow> string list" where
  "tokens_acc sep acc [] = (if acc = [] then [] else [rev acc])"
| "tokens_acc sep acc (c # cs) =
     (if sep c then (if acc = [] then [] else [rev acc]) @ tokens_acc sep [] cs
      else tokens_acc sep (c # acc) cs)"

definition tokens :: "(char \<Rightarrow> bool) \<Rightarrow> string \<Rightarrow> string list" where
  "tokens sep s = tokens_acc sep [] s"

definition comma_space :: "char \<Rightarrow> bool" where
  "comma_space c \<longleftrightarrow> c = CHR '','' \<or> c = CHR '' ''"

text \<open>\<^verbatim>\<open>sep.join(xs)\<close>.\<close>

fun join :: "string \<Rightarrow> string list \<Rightarrow> string" where
  "join sep [] = []"
| "join sep [x] = x"
| "join sep (x # y # ys) = x @ sep @ join sep (y # ys)"

text \<open>\<^verbatim>\<open>s.split('//')[0]\<close>: the part before the first \<^verbatim>\<open>//\<close>, the whole string if there is none.\<close>

fun before_dslash :: "string \<Rightarrow> string" where
  "before_dslash (a # b # cs) =
     (if a = CHR ''/'' \<and> b = CHR ''/'' then [] else a # before_dslash (b # cs))"
| "before_dslash cs = cs"

text \<open>
  \<^verbatim>\<open>re.match(lit + r'\b', s)\<close> for a literal that ends in a word character: the literal
  is a prefix of \<open>s\<close>, and what follows is the end of the string or a non-word character.
\<close>

definition re_lit_b :: "string \<Rightarrow> string \<Rightarrow> bool" where
  "re_lit_b lit s \<longleftrightarrow>
     take (length lit) s = lit \<and>
     (case drop (length lit) s of [] \<Rightarrow> True | c # _ \<Rightarrow> \<not> is_word c)"

text \<open>\<^verbatim>\<open>re.match(r'([+-]1|[+-]?0)\b', s)\<close>, the ballot pattern of addline.\<close>

definition ballot_RE :: "string \<Rightarrow> bool" where
  "ballot_RE s \<longleftrightarrow>
     re_lit_b ''+1'' s \<or> re_lit_b ''-1'' s \<or> re_lit_b ''+0'' s \<or> re_lit_b ''-0'' s
     \<or> re_lit_b ''0'' s"

text \<open>
  \<^verbatim>\<open>int(s)\<close> on a string: surrounding whitespace, an optional sign, decimal digits with
  single underscores between them. \<open>None\<close> is ValueError.
\<close>

fun no_double_underscore :: "string \<Rightarrow> bool" where
  "no_double_underscore (a # b # cs) =
     (\<not> (a = CHR ''_'' \<and> b = CHR ''_'') \<and> no_double_underscore (b # cs))"
| "no_double_underscore cs = True"

definition digit_val :: "char \<Rightarrow> int" where
  "digit_val c = int (length (takeWhile (\<lambda>d. d \<noteq> c) ''0123456789''))"

definition py_digits :: "string \<Rightarrow> int option" where
  "py_digits ds =
     (if ds \<noteq> [] \<and> (\<forall>c \<in> set ds. is_digit c \<or> c = CHR ''_'')
         \<and> is_digit (hd ds) \<and> is_digit (last ds) \<and> no_double_underscore ds
      then Some (foldl (\<lambda>v c. 10 * v + digit_val c) 0 (filter is_digit ds))
      else None)"

definition py_int :: "string \<Rightarrow> int option" where
  "py_int s =
     (case strip s of
        [] \<Rightarrow> None
      | c # r \<Rightarrow>
          if c = CHR ''-'' then map_option uminus (py_digits r)
          else if c = CHR ''+'' then py_digits r
          else py_digits (c # r))"

text \<open>
  The command pattern in force, \<^verbatim>\<open>^[#\[](\w+)\]?(?:\s+(.*?)|)\s*$\<close> of meetingLocalConfig
  (it replaces the \<^verbatim>\<open>^#(\w+)(?:\s+(.*?)|)\s*$\<close> of meeting.Config). The result is
  \<^verbatim>\<open>matchobj.groups('')\<close>: the command word and the payload, stripped on both sides.
  The word is the longest run of word characters; after the optional \<^verbatim>\<open>]\<close> the line must
  end or go on with whitespace; \<^verbatim>\<open>.\<close> does not match a newline, so a payload that
  contains one does not match.
\<close>

definition command_RE :: "string \<Rightarrow> (string \<times> string) option" where
  "command_RE s =
     (case s of
        [] \<Rightarrow> None
      | c # r \<Rightarrow>
          if c \<noteq> CHR ''#'' \<and> c \<noteq> CHR ''['' then None
          else
            let command = takeWhile is_word r;
                r1 = dropWhile is_word r;
                r2 = (case r1 of [] \<Rightarrow> [] | d # ds \<Rightarrow> if d = CHR '']'' then ds else r1)
            in if command = [] then None
               else if r2 = [] then Some (command, [])
               else if \<not> is_space (hd r2) then None
               else if CHR 0x0A \<in> set (strip r2) then None
               else Some (command, strip r2))"

text \<open>\<^verbatim>\<open>time.struct_time\<close>, as far as \<^verbatim>\<open>strftime\<close> reads it here.\<close>

record tm =
  tm_hour :: nat
  tm_min :: nat
  tm_sec :: nat

definition fmt2 :: "nat \<Rightarrow> string" where
  "fmt2 n = (if n < 10 then ''0'' @ str_nat n else str_nat n)"

text \<open>\<^verbatim>\<open>time.strftime("%H:%M", t)\<close>.\<close>

definition strftime_HM :: "tm \<Rightarrow> string" where
  "strftime_HM t = fmt2 (tm_hour t) @ '':'' @ fmt2 (tm_min t)"

section \<open>items.py\<close>

subsection \<open>inbase\<close>

definition chars26 :: string where
  "chars26 = ''abcdefghijklmnopqrstuvwxyz''"

function inbase :: "int \<Rightarrow> nat \<Rightarrow> error + string" where
  "inbase i place =
     (if i < 0 then Inl RecursionError
      else
        let b = int (length chars26) ^ (place + 1);
            d = i div b;
            m = i mod b
        in if d = 0 then
             (if nat m < length chars26 then Inr [chars26 ! nat m] else Inl IndexError)
           else
             (case inbase d (place + 1) of
                Inl e \<Rightarrow> Inl e
              | Inr s \<Rightarrow>
                  if nat m < length chars26 then Inr (s @ [chars26 ! nat m])
                  else Inl IndexError))"
  by pat_completeness auto
termination
proof (relation "measure (\<lambda>(i, place). nat i)")
  show "wf (measure (\<lambda>(i, place). nat i))" by simp
next
  fix i :: int and place :: nat and x xa
  assume a: "\<not> i < 0" and x: "x = int (length chars26) ^ (place + 1)"
    and xa: "xa = i div x" and nz: "xa \<noteq> 0"
  have "(1::int) < 26 * 26 ^ place"
    using one_less_power [of "26::int" "Suc place"] by simp
  then have b1: "1 < x" by (simp add: x chars26_def)
  have "i \<noteq> 0" using nz xa by auto
  then have pos: "0 < i" using a by simp
  then have "i div x < i" using b1 by (rule int_div_less_self)
  then show "((xa, place + 1), (i, place)) \<in> measure (\<lambda>(i, place). nat i)"
    using pos xa by simp
qed

declare inbase.simps [simp del]

subsection \<open>Minute items\<close>

datatype itemkind =
  Topic | Subtopic | Info | Idea | Agreed | Action | Help | Done | Vote
  | Accepted | Rejected | Link

fun itemtype :: "itemkind \<Rightarrow> string" where
  "itemtype Topic = ''TOPIC''"
| "itemtype Subtopic = ''SUBTOPIC''"
| "itemtype Info = ''INFO''"
| "itemtype Idea = ''IDEA''"
| "itemtype Agreed = ''AGREED''"
| "itemtype Action = ''ACTION''"
| "itemtype Help = ''HELP''"
| "itemtype Done = ''DONE''"
| "itemtype Vote = ''VOTE''"
| "itemtype Accepted = ''ACCEPTED''"
| "itemtype Rejected = ''REJECTED''"
| "itemtype Link = ''LINK''"

text \<open>
  One record for the item classes. \<open>item_line\<close> is the attribute \<^verbatim>\<open>line\<close> (\<^verbatim>\<open>topic\<close>
  for Topic and Subtopic), \<open>item_url\<close> is set by Link only. \<open>item_assigned\<close> and
  \<open>item_rstref\<close> are the two attributes that the writers add to an item after its
  creation: \<^verbatim>\<open>assigned\<close> is read with
  \<^verbatim>\<open>getattr(m, 'assigned', False)\<close>, so an absent attribute is \<open>False\<close>; an absent
  \<^verbatim>\<open>rstref\<close> is \<open>None\<close>.
\<close>

record item =
  item_kind :: itemkind
  item_nick :: string
  item_line :: string
  item_linenum :: nat
  item_time :: string
  item_url :: string
  item_assigned :: bool
  item_rstref :: "string option"

definition anchor :: "item \<Rightarrow> string" where
  "anchor m = ''l-'' @ str_nat (item_linenum m)"

definition logURL :: "string \<Rightarrow> string" where
  "logURL basename = basename @ ''.log.html''"

subsection \<open>makeRSTref\<close>

text \<open>
  \<^verbatim>\<open>M.rst_urls\<close> and \<^verbatim>\<open>M.rst_refs\<close>: ReST.format creates both before it walks the items
  and deletes them afterwards. Only the keys of \<^verbatim>\<open>rst_refs\<close> are read.
\<close>

record rst_state =
  rst_urls :: "string list"
  rst_refs :: "string set"

text \<open>
  The \<^verbatim>\<open>while rstref in M.rst_refs\<close> loop. It ends when a free name is found or when
  \<open>inbase\<close> raises; the latter happens at the latest 17576 + 676 steps after any counter
  value, which is what the termination proof uses.
\<close>


lemma length_chars26: "length chars26 = 26"
  by (simp add: chars26_def)

lemma inbase_overflow:
  assumes "26 \<le> (c div 26) mod 676"
  shows "\<exists>e. inbase (int c) 0 = Inl e"
proof -
  let ?d = "int c div 26"
  have d: "?d = int (c div 26)" by (simp add: zdiv_int)
  have m: "?d mod 676 = int ((c div 26) mod 676)" by (simp add: d zmod_int)
  have dnz: "?d \<noteq> 0" using assms d by auto
  have big: "\<not> nat (?d mod 676) < 26" using assms m by simp
  have "(c div 26) mod 676 \<le> c div 26" by simp
  then have big2: "\<not> nat ?d < 26" using assms d by simp
  have inner: "\<exists>e. inbase ?d (Suc 0) = Inl e"
    using big big2 by (subst inbase.simps) (simp add: Let_def length_chars26 split: sum.splits)
  then obtain e where e: "inbase ?d (Suc 0) = Inl e" ..
  show ?thesis
    using dnz e by (subst inbase.simps) (simp add: Let_def length_chars26)
qed

lemma inbase_overflow_later: "\<exists>k e. inbase (int (c + k)) 0 = Inl e"
proof -
  define q where "q = c div 17576"
  define k where "k = (q + 1) * 17576 + 676 - c"
  have "c < (q + 1) * 17576" unfolding q_def by (simp add: dividend_less_times_div mult.commute)
  then have ck: "c + k = (q + 1) * 17576 + 676" unfolding k_def by simp
  have "(c + k) div 26 = (q + 1) * 676 + 26" unfolding ck by simp
  then have "26 \<le> ((c + k) div 26) mod 676" by simp
  then show ?thesis using inbase_overflow by blast
qed

function rstref_loop :: "string \<Rightarrow> string set \<Rightarrow> string \<Rightarrow> nat \<Rightarrow> error + string" where
  "rstref_loop rstref_orig refs ref count =
     (if ref \<in> refs then
        (case inbase (int count) 0 of
           Inl e \<Rightarrow> Inl e
         | Inr s \<Rightarrow> rstref_loop rstref_orig refs (rstref_orig @ s) (count + 1))
      else Inr ref)"
  by pat_completeness auto
termination
proof (relation "measure (\<lambda>(rstref_orig, refs, ref, count).
                   LEAST k. \<exists>e. inbase (int (count + k)) 0 = Inl e)")
  show "wf (measure (\<lambda>(rstref_orig, refs, ref, count).
              LEAST k. \<exists>e. inbase (int (count + k)) 0 = Inl e))"
    by simp
next
  fix rstref_orig :: string and refs :: "string set" and ref :: string
    and count :: nat and s :: string
  assume ok: "inbase (int count) 0 = Inr s"
  let ?P = "\<lambda>k. \<exists>e. inbase (int (count + k)) 0 = Inl e"
  obtain n where n: "?P n" using inbase_overflow_later [of count] by blast
  have z: "\<not> ?P 0" using ok by simp
  have "(LEAST k. ?P k) = Suc (LEAST m. ?P (Suc m))" using n z by (rule Least_Suc)
  then show "((rstref_orig, refs, rstref_orig @ s, count + 1), (rstref_orig, refs, ref, count))
        \<in> measure (\<lambda>(rstref_orig, refs, ref, count).
                   LEAST k. \<exists>e. inbase (int (count + k)) 0 = Inl e)"
    by (simp add: ac_simps)
qed


declare rstref_loop.simps [simp del]

definition rstref_orig_of :: "item \<Rightarrow> string" where
  "rstref_orig_of m =
     (if last (item_nick m) = CHR ''_'' then item_nick m @ item_time m
      else item_nick m @ ''-'' @ item_time m)"

text \<open>
  \<^verbatim>\<open>self.nick[-1]\<close> raises IndexError on an empty nick. When the call raises, nothing has
  been stored yet, so the state is the one passed in.
\<close>

definition makeRSTref :: "string \<Rightarrow> item \<Rightarrow> rst_state \<Rightarrow> error + (string \<times> rst_state)" where
  "makeRSTref basename m S =
     (if item_nick m = [] then Inl IndexError
      else
        case rstref_loop (rstref_orig_of m) (rst_refs S) (rstref_orig_of m) 0 of
          Inl e \<Rightarrow> Inl e
        | Inr ref \<Rightarrow>
            Inr (ref,
                 S\<lparr>rst_urls := rst_urls S @
                      [''.. _'' @ ref @ '': '' @ logURL basename @ ''#'' @ anchor m],
                   rst_refs := insert ref (rst_refs S)\<rparr>))"

lemma inbase_0: "inbase 0 0 = Inr ''a''"
  by code_simp

lemma inbase_25: "inbase 25 0 = Inr ''z''"
  by code_simp

lemma inbase_26: "inbase 26 0 = Inr ''ba''"
  by code_simp

lemma rstref_loop_free: "ref \<notin> refs \<Longrightarrow> rstref_loop orig refs ref count = Inr ref"
  by (subst rstref_loop.simps) simp

lemma rstref_loop_first_collision:
  assumes "orig \<in> refs" and "orig @ ''a'' \<notin> refs"
  shows "rstref_loop orig refs orig 0 = Inr (orig @ ''a'')"
  using assms
  by (subst rstref_loop.simps) (simp add: inbase_0 rstref_loop_free)

definition ex_item :: item where
  "ex_item = \<lparr>item_kind = Info, item_nick = ''bob'', item_line = ''x'', item_linenum = 1,
     item_time = ''10:00'', item_url = [], item_assigned = False, item_rstref = None\<rparr>"

section \<open>writers.py: attributing action items\<close>

text \<open>\<^verbatim>\<open>\b\<close> at position \<open>p\<close> of \<open>s\<close> (\<open>p \<le> length s\<close>): exactly one side is a word character.\<close>

definition word_boundary :: "string \<Rightarrow> nat \<Rightarrow> bool" where
  "word_boundary s p \<longleftrightarrow>
     (0 < p \<and> is_word (s ! (p - 1))) \<noteq> (p < length s \<and> is_word (s ! p))"

text \<open>
  \<^verbatim>\<open>re.match(r'.*\b%s\b.*' % re.escape(nick), line, re.I)\<close>: the nick occurs somewhere in
  the line, letters compared without case, with a word boundary on both sides; \<^verbatim>\<open>.\<close> does
  not match a newline, so none may precede the occurrence.
\<close>

definition nick_match :: "string \<Rightarrow> string \<Rightarrow> bool" where
  "nick_match nick line \<longleftrightarrow>
     length nick \<le> length line \<and>
     list_ex
       (\<lambda>p. lower (take (length nick) (drop p line)) = lower nick
            \<and> word_boundary line p \<and> word_boundary line (p + length nick)
            \<and> CHR 0x0A \<notin> set (take p line))
       [0 ..< Suc (length line - length nick)]"

text \<open>
  \<^verbatim>\<open>iterActionItemsNick\<close>. For one nick the inner generator yields the matching action
  items, and on its way sets \<^verbatim>\<open>m.assigned = True\<close> on each of them.
\<close>

definition nickitems :: "string \<Rightarrow> item list \<Rightarrow> item list" where
  "nickitems nick ms =
     filter (\<lambda>m. item_kind m = Action \<and> nick_match nick (item_line m)) ms"

definition assign_nick :: "string \<Rightarrow> item list \<Rightarrow> item list" where
  "assign_nick nick ms =
     map (\<lambda>m. if item_kind m \<noteq> Action then m
              else if \<not> nick_match nick (item_line m) then m
              else m\<lparr>item_assigned := True\<rparr>) ms"

text \<open>\<^verbatim>\<open>sorted(self.M.attendees.keys(), key=lambda x: x.lower())\<close>.\<close>

definition sorted_nicks :: "(string \<times> int) list \<Rightarrow> string list" where
  "sorted_nicks att = sort_key lower (map fst att)"

text \<open>
  The items after every generator of \<^verbatim>\<open>iterActionItemsNick\<close> has been consumed, as each
  writer's by-person block does (the reST, text, MediaWiki and Moin writers run the same
  two loops inline).
\<close>

definition iterActionItemsNick_marks :: "(string \<times> int) list \<Rightarrow> item list \<Rightarrow> item list" where
  "iterActionItemsNick_marks att ms = foldl (\<lambda>ms nick. assign_nick nick ms) ms (sorted_nicks att)"

text \<open>\<^verbatim>\<open>iterActionItemsUnassigned\<close>.\<close>

definition iterActionItemsUnassigned :: "item list \<Rightarrow> item list" where
  "iterActionItemsUnassigned ms =
     filter (\<lambda>m. item_kind m = Action \<and> \<not> item_assigned m) ms"

section \<open>meeting.py\<close>

subsection \<open>Item constructors\<close>

text \<open>\<^verbatim>\<open>Topic.__init__\<close> and \<^verbatim>\<open>GenericItem.__init__\<close>.\<close>

definition mk_item :: "itemkind \<Rightarrow> string \<Rightarrow> string \<Rightarrow> nat \<Rightarrow> tm \<Rightarrow> item" where
  "mk_item k nick line linenum time' =
     \<lparr>item_kind = k, item_nick = nick, item_line = line, item_linenum = linenum,
      item_time = strftime_HM time', item_url = [], item_assigned = False,
      item_rstref = None\<rparr>"

text \<open>
  \<^verbatim>\<open>Link.__init__\<close>: \<^verbatim>\<open>self.url, self.line = (line+' ').split(' ', 1)\<close>, then
  \<^verbatim>\<open>self.line = self.line.rstrip()\<close>.
\<close>

definition mk_link :: "string \<Rightarrow> string \<Rightarrow> nat \<Rightarrow> tm \<Rightarrow> item" where
  "mk_link nick line linenum time' =
     \<lparr>item_kind = Link, item_nick = nick,
      item_line = rstrip (drop 1 (dropWhile (\<lambda>c. c \<noteq> CHR '' '') (line @ '' ''))),
      item_linenum = linenum, item_time = strftime_HM time',
      item_url = takeWhile (\<lambda>c. c \<noteq> CHR '' '') (line @ '' ''),
      item_assigned = False, item_rstref = None\<rparr>"

subsection \<open>The session\<close>

text \<open>
  The attributes of \<^verbatim>\<open>Meeting\<close>. Dictionaries whose entries are walked are association
  lists in insertion order (\<open>AList.update\<close> replaces the value of a present key in place
  and appends an absent one); \<^verbatim>\<open>chairs\<close> and \<^verbatim>\<open>voters\<close>, of which only the keys matter,
  are sets. \<^verbatim>\<open>starttime\<close> and \<^verbatim>\<open>endtime\<close> do not exist until they are assigned: \<open>None\<close>.
  \<^verbatim>\<open>isop\<close>, \<^verbatim>\<open>currentVote\<close> and \<^verbatim>\<open>currentVoteStartLine\<close> are created by
  \<^verbatim>\<open>addline\<close> and \<^verbatim>\<open>do_vote\<close> before anything reads them; here they exist from the start.

  \<^verbatim>\<open>reply\<close>, \<^verbatim>\<open>privateReply\<close> and \<^verbatim>\<open>topic\<close> hand a string to the transport
  callbacks and assign no attribute, and the files a save writes are not attributes either:
  neither is part of the state, so handlers that only reply are the identity.
\<close>

record meeting =
  owner :: "string option"
  botNick :: string
  channel :: string
  network :: string
  currenttopic :: string
  oldtopic :: string
  lines :: "string list"
  minutes :: "item list"
  attendees :: "(string \<times> int) list"
  chairs :: "string set"
  voters :: "string set"
  publicVoters :: "(string \<times> string list) list"
  votes :: "(string \<times> string \<times> nat) list"
  votesrequired :: int
  activeVote :: string
  currentVote :: "(string \<times> string) list"
  currentVoteStartLine :: nat
  meetingTopic :: "string option"
  meetingname :: string
  meetingIsOver :: bool
  lurk :: bool
  restrictlogs :: bool
  isop :: bool
  starttime :: "tm option"
  endtime :: "tm option"

text \<open>\<^verbatim>\<open>Meeting.__init__\<close>, for the arguments the plugin passes.\<close>

definition Meeting :: "string \<Rightarrow> string \<Rightarrow> string option \<Rightarrow> string \<Rightarrow> string \<Rightarrow> meeting" where
  "Meeting chan net own bnick old =
     \<lparr>owner = own, botNick = bnick, channel = chan, network = net, currenttopic = [],
      oldtopic = old, lines = [], minutes = [], attendees = [], chairs = {}, voters = {},
      publicVoters = [], votes = [], votesrequired = 0, activeVote = [],
      currentVote = [], currentVoteStartLine = 0, meetingTopic = None, meetingname = [],
      meetingIsOver = False, lurk = False, restrictlogs = False, isop = False,
      starttime = None, endtime = None\<rparr>"

definition attendee_count :: "meeting \<Rightarrow> string \<Rightarrow> int" where
  "attendee_count M n = (case map_of (attendees M) n of None \<Rightarrow> 0 | Some c \<Rightarrow> c)"

definition addnick :: "meeting \<Rightarrow> string \<Rightarrow> int \<Rightarrow> meeting" where
  "addnick M nick n =
     (if nick \<noteq> botNick M
      then M\<lparr>attendees := AList.update nick (attendee_count M nick + n) (attendees M)\<rparr>
      else M)"

definition isChair :: "meeting \<Rightarrow> string \<Rightarrow> bool" where
  "isChair M nick \<longleftrightarrow> Some nick = owner M \<or> nick \<in> chairs M \<or> isop M"

definition additem :: "meeting \<Rightarrow> item \<Rightarrow> meeting" where
  "additem M m = M\<lparr>minutes := minutes M @ [m]\<rparr>"

text \<open>
  \<^verbatim>\<open>addrawline\<close>: returns the line number with the new state. \<open>time'\<close> (the source's \<^verbatim>\<open>time_\<close>) is the time
  after the \<^verbatim>\<open>if not time'\<close> default has been applied by the caller.
\<close>

definition addrawline :: "meeting \<Rightarrow> string \<Rightarrow> string \<Rightarrow> tm \<Rightarrow> nat \<times> meeting" where
  "addrawline M nick line time' =
     (let M1 = addnick M nick 1;
          l = strip_chars {CHR 0x01} line;
          logline =
            (if take 6 l = ''ACTION''
             then strftime_HM time' @ '' * '' @ nick @ '' '' @ lstrip (drop 7 l)
             else strftime_HM time' @ '' <'' @ nick @ ''> '' @ l);
          M2 = M1\<lparr>lines := lines M1 @ [logline]\<rparr>
      in (length (lines M2), M2))"

subsection \<open>Saving\<close>

text \<open>
  \<^verbatim>\<open>Config.save()\<close> with the writers of meetingLocalConfig (the raw log, HTMLlog and HTML).
  What it does to the session: it formats the start time, which raises AttributeError
  when \<^verbatim>\<open>starttime\<close> was never assigned, and the HTML writer's by-person block sets the
  \<^verbatim>\<open>assigned\<close> flags. \<^verbatim>\<open>save(realtime_update=True)\<close> runs the raw-log writer only, which
  reads \<^verbatim>\<open>M.lines\<close> and assigns nothing; it does not appear below.
\<close>

definition config_save :: "meeting \<Rightarrow> meeting \<times> error option" where
  "config_save M =
     (if starttime M = None then (M, Some AttributeError)
      else (M\<lparr>minutes := iterActionItemsNick_marks (attendees M) (minutes M)\<rparr>, None))"

subsection \<open>Commands for chairs\<close>

definition do_meetingtopic :: "meeting \<Rightarrow> string \<Rightarrow> string \<Rightarrow> meeting" where
  "do_meetingtopic M nick line =
     (if \<not> isChair M nick then M
      else if line = [] \<or> lower line \<in> {''none'', ''unset''} then M\<lparr>meetingTopic := None\<rparr>
      else M\<lparr>meetingTopic := Some line\<rparr>)"

definition do_startmeeting :: "meeting \<Rightarrow> string \<Rightarrow> string \<Rightarrow> tm \<Rightarrow> meeting" where
  "do_startmeeting M nick line time' =
     (let M1 = (if owner M = None \<or> owner M = Some [] then M\<lparr>owner := Some nick\<rparr> else M);
          M2 = (if starttime M1 = None then M1\<lparr>starttime := Some time'\<rparr> else M1)
      in if line \<noteq> [] then do_meetingtopic M2 nick line else M2)"

text \<open>
  The three-way outcome of \<^verbatim>\<open>do_endvote\<close>, as \<^verbatim>\<open>(voteResult, motion)\<close>; \<open>None\<close> when no
  branch of the chain is taken and the two names stay unbound.
\<close>

definition vote_outcome :: "int \<Rightarrow> int \<Rightarrow> int \<Rightarrow> (string \<times> string) option" where
  "vote_outcome vfor vagainst required =
     (if vfor - vagainst \<ge> required then Some (''Carried'', ''Motion carried'')
      else if vfor - vagainst < required then Some (''Denied'', ''Motion denied'')
      else if required = 0 then Some (''Deadlock'', ''Motion deadlocked'')
      else None)"

text \<open>The tally loop over \<^verbatim>\<open>self.currentVote.values()\<close>: for, against, abstained.\<close>

fun tally :: "string list \<Rightarrow> nat \<times> nat \<times> nat" where
  "tally [] = (0, 0, 0)"
| "tally (v # vs) =
     (case tally vs of (vfor, vagainst, vabstain) \<Rightarrow>
        if re_lit_b ''+1'' v then (vfor + 1, vagainst, vabstain)
        else if re_lit_b ''-1'' v then (vfor, vagainst + 1, vabstain)
        else if re_lit_b ''+0'' v \<or> re_lit_b ''-0'' v \<or> re_lit_b ''0'' v
          then (vfor, vagainst, vabstain + 1)
        else (vfor, vagainst, vabstain))"

definition do_endvote :: "meeting \<Rightarrow> string \<Rightarrow> string \<Rightarrow> nat \<Rightarrow> tm \<Rightarrow> meeting \<times> error option" where
  "do_endvote M nick line linenum time' =
     (if \<not> isChair M nick then (M, None)
      else if activeVote M = [] then (M, None)
      else
        case tally (map snd (currentVote M)) of (vfor, vagainst, vabstain) \<Rightarrow>
        case vote_outcome (int vfor) (int vagainst) (votesrequired M) of
          None \<Rightarrow> (M, Some UnboundLocalError)
        | Some (voteResult, motion) \<Rightarrow>
            let voteSummary = motion @ '' (For: '' @ str_nat vfor @ '', Against: ''
                  @ str_nat vagainst @ '', Abstained: '' @ str_nat vabstain @ '')'';
                M1 = M\<lparr>votes := AList.update (activeVote M)
                                  (voteSummary, currentVoteStartLine M) (votes M)\<rparr>;
                voteResultLog = activeVote M1 @ '' ('' @ voteResult @ '')'';
                M2 = additem M1 (mk_item Vote nick voteResultLog linenum time')
            in (M2\<lparr>activeVote := [], currentVote := [], currentVoteStartLine := 0\<rparr>, None))"

text \<open>
  \<^verbatim>\<open>do_endmeeting\<close>. \<open>now\<close> is \<^verbatim>\<open>time.localtime()\<close>. The flag is set before
  \<^verbatim>\<open>endmeeting()\<close> saves, so it stays set when the save raises.
\<close>

definition do_endmeeting :: "meeting \<Rightarrow> string \<Rightarrow> string \<Rightarrow> nat \<Rightarrow> tm \<Rightarrow> tm \<Rightarrow> meeting \<times> error option" where
  "do_endmeeting M nick line linenum time' now =
     (if \<not> isChair M nick then (M, None)
      else
        case (if activeVote M \<noteq> [] then do_endvote M nick line linenum now else (M, None)) of
          (M1, Some e) \<Rightarrow> (M1, Some e)
        | (M1, None) \<Rightarrow> config_save (M1\<lparr>endtime := Some time', meetingIsOver := True\<rparr>))"

definition do_topic :: "meeting \<Rightarrow> string \<Rightarrow> string \<Rightarrow> nat \<Rightarrow> tm \<Rightarrow> meeting" where
  "do_topic M nick line linenum time' =
     (if \<not> isChair M nick then M
      else additem (M\<lparr>currenttopic := line\<rparr>) (mk_item Topic nick line linenum time'))"

definition do_subtopic :: "meeting \<Rightarrow> string \<Rightarrow> string \<Rightarrow> nat \<Rightarrow> tm \<Rightarrow> meeting" where
  "do_subtopic M nick line linenum time' =
     (if \<not> isChair M nick then M
      else additem M (mk_item Subtopic nick line linenum time'))"

definition do_save :: "meeting \<Rightarrow> string \<Rightarrow> tm \<Rightarrow> meeting \<times> error option" where
  "do_save M nick time' =
     (if \<not> isChair M nick then (M, None)
      else config_save (M\<lparr>endtime := Some time'\<rparr>))"

definition do_done :: "meeting \<Rightarrow> string \<Rightarrow> string \<Rightarrow> nat \<Rightarrow> tm \<Rightarrow> meeting" where
  "do_done M nick line linenum time' =
     (if \<not> isChair M nick then M
      else additem M (mk_item Done nick line linenum time'))"

definition do_agreed :: "meeting \<Rightarrow> string \<Rightarrow> string \<Rightarrow> nat \<Rightarrow> tm \<Rightarrow> meeting" where
  "do_agreed M nick line linenum time' =
     (if \<not> isChair M nick then M
      else additem M (mk_item Agreed nick line linenum time'))"

definition do_accepted :: "meeting \<Rightarrow> string \<Rightarrow> string \<Rightarrow> nat \<Rightarrow> tm \<Rightarrow> meeting" where
  "do_accepted M nick line linenum time' =
     (if \<not> isChair M nick then M
      else additem M (mk_item Accepted nick line linenum time'))"

definition do_rejected :: "meeting \<Rightarrow> string \<Rightarrow> string \<Rightarrow> nat \<Rightarrow> tm \<Rightarrow> meeting" where
  "do_rejected M nick line linenum time' =
     (if \<not> isChair M nick then M
      else additem M (mk_item Rejected nick line linenum time'))"

text \<open>The loop of \<^verbatim>\<open>do_chair\<close> over the names in the payload.\<close>

fun do_chair_loop :: "meeting \<Rightarrow> string list \<Rightarrow> meeting" where
  "do_chair_loop M [] = M"
| "do_chair_loop M (chair # cs) =
     do_chair_loop
       (if chair \<notin> chairs M
        then (addnick M chair 0)\<lparr>chairs := insert chair (chairs (addnick M chair 0))\<rparr>
        else M) cs"

definition do_chair :: "meeting \<Rightarrow> string \<Rightarrow> string \<Rightarrow> meeting" where
  "do_chair M nick line =
     (if \<not> isChair M nick then M else do_chair_loop M (tokens comma_space line))"

fun do_unchair_loop :: "meeting \<Rightarrow> string list \<Rightarrow> meeting" where
  "do_unchair_loop M [] = M"
| "do_unchair_loop M (chair # cs) =
     do_unchair_loop (if chair \<in> chairs M then M\<lparr>chairs := chairs M - {chair}\<rparr> else M) cs"

definition do_unchair :: "meeting \<Rightarrow> string \<Rightarrow> string \<Rightarrow> meeting" where
  "do_unchair M nick line =
     (if \<not> isChair M nick then M else do_unchair_loop M (tokens comma_space line))"

definition do_undo :: "meeting \<Rightarrow> string \<Rightarrow> meeting" where
  "do_undo M nick =
     (if \<not> isChair M nick then M
      else if minutes M = [] then M
      else M\<lparr>minutes := butlast (minutes M)\<rparr>)"

definition do_restrictlogs :: "meeting \<Rightarrow> string \<Rightarrow> meeting" where
  "do_restrictlogs M nick = (if \<not> isChair M nick then M else M\<lparr>restrictlogs := True\<rparr>)"

definition do_lurk :: "meeting \<Rightarrow> string \<Rightarrow> meeting" where
  "do_lurk M nick = (if \<not> isChair M nick then M else M\<lparr>lurk := True\<rparr>)"

definition do_unlurk :: "meeting \<Rightarrow> string \<Rightarrow> meeting" where
  "do_unlurk M nick = (if \<not> isChair M nick then M else M\<lparr>lurk := False\<rparr>)"

definition do_meetingname :: "meeting \<Rightarrow> string \<Rightarrow> string \<Rightarrow> meeting" where
  "do_meetingname M nick line =
     (if \<not> isChair M nick then M
      else M\<lparr>meetingname := join ''_'' (tokens is_space (lower line))\<rparr>)"

definition do_vote :: "meeting \<Rightarrow> string \<Rightarrow> string \<Rightarrow> meeting" where
  "do_vote M nick line =
     (if \<not> isChair M nick then M
      else if activeVote M \<noteq> [] then M
      else M\<lparr>activeVote := line, currentVote := [],
             publicVoters := AList.update line [] (publicVoters M),
             currentVoteStartLine := length (lines M)\<rparr>)"

definition do_votesrequired :: "meeting \<Rightarrow> string \<Rightarrow> string \<Rightarrow> meeting" where
  "do_votesrequired M nick line =
     (if \<not> isChair M nick then M
      else M\<lparr>votesrequired := (case py_int line of Some n \<Rightarrow> n | None \<Rightarrow> 0)\<rparr>)"

text \<open>The loop of \<^verbatim>\<open>do_voters\<close>; "everyone" clears the set and returns at once.\<close>

fun do_voters_loop :: "meeting \<Rightarrow> string list \<Rightarrow> meeting" where
  "do_voters_loop M [] = M"
| "do_voters_loop M (voter # vs) =
     (if voter \<in> {''everyone'', ''everybody'', ''all''} then M\<lparr>voters := {}\<rparr>
      else
        do_voters_loop
          (if voter \<notin> voters M
           then (addnick M voter 0)\<lparr>voters := insert voter (voters (addnick M voter 0))\<rparr>
           else M) vs)"

definition do_voters :: "meeting \<Rightarrow> string \<Rightarrow> string \<Rightarrow> meeting" where
  "do_voters M nick line =
     (if \<not> isChair M nick then M else do_voters_loop M (tokens comma_space line))"

subsection \<open>Commands for anyone\<close>

definition do_action :: "meeting \<Rightarrow> string \<Rightarrow> string \<Rightarrow> nat \<Rightarrow> tm \<Rightarrow> meeting" where
  "do_action M nick line linenum time' = additem M (mk_item Action nick line linenum time')"

definition do_info :: "meeting \<Rightarrow> string \<Rightarrow> string \<Rightarrow> nat \<Rightarrow> tm \<Rightarrow> meeting" where
  "do_info M nick line linenum time' = additem M (mk_item Info nick line linenum time')"

definition do_idea :: "meeting \<Rightarrow> string \<Rightarrow> string \<Rightarrow> nat \<Rightarrow> tm \<Rightarrow> meeting" where
  "do_idea M nick line linenum time' = additem M (mk_item Idea nick line linenum time')"

definition do_help :: "meeting \<Rightarrow> string \<Rightarrow> string \<Rightarrow> nat \<Rightarrow> tm \<Rightarrow> meeting" where
  "do_help M nick line linenum time' = additem M (mk_item Help nick line linenum time')"

definition do_nick :: "meeting \<Rightarrow> string \<Rightarrow> meeting" where
  "do_nick M line = foldl (\<lambda>M n. addnick M n 0) M (tokens comma_space line)"

definition do_link :: "meeting \<Rightarrow> string \<Rightarrow> string \<Rightarrow> nat \<Rightarrow> tm \<Rightarrow> meeting" where
  "do_link M nick line linenum time' = additem M (mk_link nick line linenum time')"

subsection \<open>Ballots\<close>

text \<open>
  \<^verbatim>\<open>doCastVote\<close>. The ballot is stored before \<^verbatim>\<open>self.publicVoters[self.activeVote]\<close> is
  looked up, so it is in the state when that lookup raises KeyError.
\<close>

definition doCastVote :: "meeting \<Rightarrow> string \<Rightarrow> string \<Rightarrow> bool \<Rightarrow> meeting \<times> error option" where
  "doCastVote M nick line private =
     (if voters M = {} \<or> nick \<in> voters M then
        if activeVote M \<noteq> [] then
          let M1 = M\<lparr>currentVote := AList.update nick line (currentVote M)\<rparr>
          in if \<not> private then
               (case map_of (publicVoters M1) (activeVote M1) of
                  None \<Rightarrow> (M1, Some KeyError)
                | Some cast \<Rightarrow>
                    (M1\<lparr>publicVoters :=
                          AList.update (activeVote M1) (cast @ [nick]) (publicVoters M1)\<rparr>,
                     None))
             else (M1, None)
        else (M, None)
      else (M, None))"

subsection \<open>Dispatch\<close>

text \<open>
  The \<^verbatim>\<open>do_\<close> methods of the class by command name, each called as
  \<^verbatim>\<open>do_x(nick=nick, line=line, linenum=linenum, time_=time_)\<close>. A name that is not in
  the table fails \<^verbatim>\<open>hasattr(self, "do_" + command)\<close>. The last argument is the wall clock.
\<close>

type_synonym handler =
  "meeting \<Rightarrow> string \<Rightarrow> string \<Rightarrow> nat \<Rightarrow> tm \<Rightarrow> tm \<Rightarrow> meeting \<times> error option"

definition commands :: "(string \<times> handler) list" where
  "commands =
     [(''startmeeting'', \<lambda>M nick line linenum time' now. (do_startmeeting M nick line time', None)),
      (''endmeeting'', do_endmeeting),
      (''abortmeeting'', \<lambda>M nick line linenum time' now. (M, None)),
      (''replay'', \<lambda>M nick line linenum time' now. (M, None)),
      (''topic'', \<lambda>M nick line linenum time' now. (do_topic M nick line linenum time', None)),
      (''subtopic'', \<lambda>M nick line linenum time' now. (do_subtopic M nick line linenum time', None)),
      (''progress'', \<lambda>M nick line linenum time' now. (do_subtopic M nick line linenum time', None)),
      (''meetingtopic'', \<lambda>M nick line linenum time' now. (do_meetingtopic M nick line, None)),
      (''save'', \<lambda>M nick line linenum time' now. do_save M nick time'),
      (''done'', \<lambda>M nick line linenum time' now. (do_done M nick line linenum time', None)),
      (''agreed'', \<lambda>M nick line linenum time' now. (do_agreed M nick line linenum time', None)),
      (''agree'', \<lambda>M nick line linenum time' now. (do_agreed M nick line linenum time', None)),
      (''accepted'', \<lambda>M nick line linenum time' now. (do_accepted M nick line linenum time', None)),
      (''accept'', \<lambda>M nick line linenum time' now. (do_accepted M nick line linenum time', None)),
      (''rejected'', \<lambda>M nick line linenum time' now. (do_rejected M nick line linenum time', None)),
      (''reject'', \<lambda>M nick line linenum time' now. (do_rejected M nick line linenum time', None)),
      (''chair'', \<lambda>M nick line linenum time' now. (do_chair M nick line, None)),
      (''unchair'', \<lambda>M nick line linenum time' now. (do_unchair M nick line, None)),
      (''undo'', \<lambda>M nick line linenum time' now. (do_undo M nick, None)),
      (''restrictlogs'', \<lambda>M nick line linenum time' now. (do_restrictlogs M nick, None)),
      (''lurk'', \<lambda>M nick line linenum time' now. (do_lurk M nick, None)),
      (''unlurk'', \<lambda>M nick line linenum time' now. (do_unlurk M nick, None)),
      (''meetingname'', \<lambda>M nick line linenum time' now. (do_meetingname M nick line, None)),
      (''vote'', \<lambda>M nick line linenum time' now. (do_vote M nick line, None)),
      (''votesrequired'', \<lambda>M nick line linenum time' now. (do_votesrequired M nick line, None)),
      (''endvote'', \<lambda>M nick line linenum time' now. do_endvote M nick line linenum time'),
      (''voters'', \<lambda>M nick line linenum time' now. (do_voters M nick line, None)),
      (''private_commands'', \<lambda>M nick line linenum time' now. (M, None)),
      (''action'', \<lambda>M nick line linenum time' now. (do_action M nick line linenum time', None)),
      (''info'', \<lambda>M nick line linenum time' now. (do_info M nick line linenum time', None)),
      (''idea'', \<lambda>M nick line linenum time' now. (do_idea M nick line linenum time', None)),
      (''help'', \<lambda>M nick line linenum time' now. (do_help M nick line linenum time', None)),
      (''halp'', \<lambda>M nick line linenum time' now. (do_help M nick line linenum time', None)),
      (''nick'', \<lambda>M nick line linenum time' now. (do_nick M line, None)),
      (''link'', \<lambda>M nick line linenum time' now. (do_link M nick line linenum time', None)),
      (''commands'', \<lambda>M nick line linenum time' now. (M, None))]"

text \<open>The handlers the source marks as chair-only by their first statement.\<close>

definition chair_only :: "string list" where
  "chair_only =
     [''topic'', ''subtopic'', ''meetingtopic'', ''save'', ''done'', ''agreed'', ''accepted'',
      ''rejected'', ''chair'', ''unchair'', ''undo'', ''restrictlogs'', ''lurk'', ''unlurk'',
      ''meetingname'', ''vote'', ''votesrequired'', ''endvote'', ''voters'']"

definition UrlProtocols :: "string list" where
  "UrlProtocols = [''http:'', ''https:'', ''irc:'', ''ftp:'', ''mailto:'', ''ssh:'']"

subsection \<open>addline\<close>

text \<open>
  \<^verbatim>\<open>addline(nick, line, isop, time_)\<close>; \<open>time_opt\<close> is the optional \<^verbatim>\<open>time_\<close> and \<open>now\<close>
  the wall clock that replaces it when absent. A handler that raises ends the call with
  the state it had reached. The first component of the result is the state, the second
  the exception, if any.
\<close>

definition cast_if_ballot :: "meeting \<Rightarrow> string \<Rightarrow> string \<Rightarrow> meeting \<times> error option" where
  "cast_if_ballot M nick line =
     (if ballot_RE line then doCastVote M nick line False else (M, None))"

definition addline :: "meeting \<Rightarrow> string \<Rightarrow> string \<Rightarrow> bool \<Rightarrow> tm option \<Rightarrow> tm \<Rightarrow> meeting \<times> error option" where
  "addline M nick line isop_arg time_opt now =
     (let time' = (case time_opt of None \<Rightarrow> now | Some t \<Rightarrow> t);
          (linenum, M1) = addrawline M nick line time';
          M2 = M1\<lparr>isop := isop_arg\<rparr>
      in case command_RE line of
           Some (command, payload) \<Rightarrow>
             (case map_of commands (lower command) of
                Some do_command \<Rightarrow>
                  (case do_command M2 nick payload linenum time' now of
                     (M3, Some e) \<Rightarrow> (M3, Some e)
                   | (M3, None) \<Rightarrow> cast_if_ballot M3 nick payload)
              | None \<Rightarrow> cast_if_ballot M2 nick payload)
         | None \<Rightarrow>
             cast_if_ballot
               (if before_dslash line \<in> set UrlProtocols
                then do_link M2 nick line linenum time' else M2)
               nick line)"

section \<open>What the handlers leave alone\<close>

text \<open>
  \<open>same_log M M'\<close>: the transcript, the bot's nick and every attendee's line count are
  the same in both states.
\<close>

lemma addnick_lines: "lines (addnick M n k) = lines M"
  by (simp add: addnick_def)

lemma addnick_botNick: "botNick (addnick M n k) = botNick M"
  by (simp add: addnick_def)

lemma addnick_minutes: "minutes (addnick M n k) = minutes M"
  by (simp add: addnick_def)

lemma addnick_count_zero: "attendee_count (addnick M n 0) x = attendee_count M x"
  by (simp add: addnick_def attendee_count_def update_conv')

lemma addnick_count_one:
  "attendee_count (addnick M n 1) x =
     (if x = n \<and> n \<noteq> botNick M then attendee_count M x + 1 else attendee_count M x)"
  by (simp add: addnick_def attendee_count_def update_conv')

definition same_log :: "meeting \<Rightarrow> meeting \<Rightarrow> bool" where
  "same_log M M' \<longleftrightarrow>
     lines M' = lines M \<and> botNick M' = botNick M
     \<and> (\<forall>x. attendee_count M' x = attendee_count M x)"

lemma same_log_refl: "same_log M M"
  by (simp add: same_log_def)

lemma same_log_trans: "same_log M M1 \<Longrightarrow> same_log M1 M2 \<Longrightarrow> same_log M M2"
  by (simp add: same_log_def)

lemma same_log_addnick0: "same_log M (addnick M n 0)"
  by (simp add: same_log_def addnick_lines addnick_botNick addnick_count_zero)

lemma same_log_upd:
  "lines M' = lines M \<Longrightarrow> botNick M' = botNick M \<Longrightarrow> attendees M' = attendees M
   \<Longrightarrow> same_log M M'"
  by (simp add: same_log_def attendee_count_def)

lemma do_chair_loop_log: "same_log M (do_chair_loop M cs)"
proof (induction cs arbitrary: M)
  case Nil
  show ?case by (simp add: same_log_refl)
next
  case (Cons c cs)
  let ?M1 = "if c \<notin> chairs M
        then (addnick M c 0)\<lparr>chairs := insert c (chairs (addnick M c 0))\<rparr> else M"
  have a: "same_log M ?M1"
    using same_log_addnick0 [of M c] by (simp add: same_log_def attendee_count_def)
  have b: "same_log ?M1 (do_chair_loop ?M1 cs)" by (rule Cons.IH)
  show ?case using same_log_trans [OF a b] by simp
qed

lemma do_unchair_loop_log: "same_log M (do_unchair_loop M cs)"
proof (induction cs arbitrary: M)
  case Nil
  show ?case by (simp add: same_log_refl)
next
  case (Cons c cs)
  let ?M1 = "if c \<in> chairs M then M\<lparr>chairs := chairs M - {c}\<rparr> else M"
  have a: "same_log M ?M1" by (simp add: same_log_def attendee_count_def)
  have b: "same_log ?M1 (do_unchair_loop ?M1 cs)" by (rule Cons.IH)
  show ?case using same_log_trans [OF a b] by simp
qed

lemma do_voters_loop_log: "same_log M (do_voters_loop M vs)"
proof (induction vs arbitrary: M)
  case Nil
  show ?case by (simp add: same_log_refl)
next
  case (Cons v vs)
  let ?M1 = "if v \<notin> voters M
        then (addnick M v 0)\<lparr>voters := insert v (voters (addnick M v 0))\<rparr> else M"
  have a: "same_log M ?M1"
    using same_log_addnick0 [of M v] by (simp add: same_log_def attendee_count_def)
  have b: "same_log ?M1 (do_voters_loop ?M1 vs)" by (rule Cons.IH)
  have c: "same_log M (M\<lparr>voters := {}\<rparr>)" by (simp add: same_log_def attendee_count_def)
  show ?case
  proof (cases "v \<in> {''everyone'', ''everybody'', ''all''}")
    case True
    then show ?thesis using c by simp
  next
    case False
    then show ?thesis using same_log_trans [OF a b] by simp
  qed
qed

lemma do_nick_log: "same_log M (do_nick M line)"
proof -
  have "same_log M (foldl (\<lambda>M n. addnick M n 0) M ns)" for ns
  proof (induction ns arbitrary: M)
    case Nil
    show ?case by (simp add: same_log_refl)
  next
    case (Cons n ns)
    show ?case
      using same_log_trans [OF same_log_addnick0 [of M n] Cons.IH [of "addnick M n 0"]]
      by simp
  qed
  then show ?thesis by (simp add: do_nick_def)
qed

lemma config_save_log: "same_log M (fst (config_save M))"
  by (simp add: config_save_def same_log_def attendee_count_def)

lemma vote_outcome_total:
  "vote_outcome f a r =
     (if r \<le> f - a then Some (''Carried'', ''Motion carried'')
      else Some (''Denied'', ''Motion denied''))"
  by (simp add: vote_outcome_def)

lemma do_endvote_result:
  assumes "isChair M nick" and "activeVote M \<noteq> []"
    and "tally (map snd (currentVote M)) = (vfor, vagainst, vabstain)"
    and "vote_outcome (int vfor) (int vagainst) (votesrequired M) = Some (voteResult, motion)"
  shows "do_endvote M nick line linenum t =
    (M\<lparr>votes := AList.update (activeVote M)
          (motion @ '' (For: '' @ str_nat vfor @ '', Against: '' @ str_nat vagainst
             @ '', Abstained: '' @ str_nat vabstain @ '')'', currentVoteStartLine M) (votes M),
       minutes := minutes M @
          [mk_item Vote nick (activeVote M @ '' ('' @ voteResult @ '')'') linenum t],
       activeVote := [], currentVote := [], currentVoteStartLine := 0\<rparr>, None)"
  using assms by (simp add: do_endvote_def additem_def)

lemma do_endvote_noop:
  "\<not> (isChair M nick \<and> activeVote M \<noteq> []) \<Longrightarrow> do_endvote M nick line linenum t = (M, None)"
  by (auto simp: do_endvote_def)

lemma do_endvote_log: "same_log M (fst (do_endvote M nick line linenum t))"
proof (cases "isChair M nick \<and> activeVote M \<noteq> []")
  case False
  then show ?thesis by (simp add: do_endvote_noop same_log_refl)
next
  case True
  obtain vfor vagainst vabstain
    where t: "tally (map snd (currentVote M)) = (vfor, vagainst, vabstain)"
    by (cases "tally (map snd (currentVote M))")
  obtain voteResult motion
    where v: "vote_outcome (int vfor) (int vagainst) (votesrequired M) = Some (voteResult, motion)"
    by (cases "votesrequired M \<le> int vfor - int vagainst") (simp_all add: vote_outcome_total)
  have c: "isChair M nick" and o: "activeVote M \<noteq> []" using True by simp_all
  show ?thesis
    by (simp add: do_endvote_result [OF c o t v] same_log_def attendee_count_def)
qed

lemma do_endmeeting_log: "same_log M (fst (do_endmeeting M nick line linenum t now))"
proof (cases "isChair M nick")
  case False
  then show ?thesis by (simp add: do_endmeeting_def same_log_refl)
next
  case True
  let ?r = "if activeVote M \<noteq> [] then do_endvote M nick line linenum now else (M, None)"
  obtain M1 e where r: "?r = (M1, e)" by (cases ?r)
  have a: "same_log M M1"
    using r do_endvote_log [of M nick line linenum now]
    by (cases "activeVote M \<noteq> []") (auto simp: same_log_refl)
  show ?thesis
  proof (cases e)
    case (Some err)
    then show ?thesis using True r a by (simp add: do_endmeeting_def)
  next
    case None
    let ?M2 = "M1\<lparr>endtime := Some t, meetingIsOver := True\<rparr>"
    have b: "same_log M1 ?M2" by (simp add: same_log_def attendee_count_def)
    have c: "same_log ?M2 (fst (config_save ?M2))" by (rule config_save_log)
    have "fst (do_endmeeting M nick line linenum t now) = fst (config_save ?M2)"
      using True r None by (simp add: do_endmeeting_def)
    then show ?thesis using same_log_trans [OF a same_log_trans [OF b c]] by simp
  qed
qed

lemma do_save_log: "same_log M (fst (do_save M nick t))"
proof (cases "isChair M nick")
  case False
  then show ?thesis by (simp add: do_save_def same_log_refl)
next
  case True
  let ?M1 = "M\<lparr>endtime := Some t\<rparr>"
  have a: "same_log M ?M1" by (simp add: same_log_def attendee_count_def)
  show ?thesis
    using True same_log_trans [OF a config_save_log [of ?M1]] by (simp add: do_save_def)
qed

lemma do_meetingtopic_log: "same_log M (do_meetingtopic M nick line)"
  by (simp add: do_meetingtopic_def same_log_def attendee_count_def)

lemma do_startmeeting_log: "same_log M (do_startmeeting M nick line t)"
proof -
  let ?M1 = "if owner M = None \<or> owner M = Some [] then M\<lparr>owner := Some nick\<rparr> else M"
  let ?M2 = "if starttime ?M1 = None then ?M1\<lparr>starttime := Some t\<rparr> else ?M1"
  have a: "same_log M ?M1" by (simp add: same_log_def attendee_count_def)
  have b: "same_log ?M1 ?M2" by (simp add: same_log_def attendee_count_def)
  have c: "same_log M ?M2" using same_log_trans [OF a b] .
  have d: "same_log M (do_meetingtopic ?M2 nick line)"
    using same_log_trans [OF c do_meetingtopic_log] .
  show ?thesis
    using c d by (simp add: do_startmeeting_def Let_def)
qed

lemma simple_handlers_log:
  "same_log M (do_topic M nick line linenum t)"
  "same_log M (do_subtopic M nick line linenum t)"
  "same_log M (do_done M nick line linenum t)"
  "same_log M (do_agreed M nick line linenum t)"
  "same_log M (do_accepted M nick line linenum t)"
  "same_log M (do_rejected M nick line linenum t)"
  "same_log M (do_undo M nick)"
  "same_log M (do_restrictlogs M nick)"
  "same_log M (do_lurk M nick)"
  "same_log M (do_unlurk M nick)"
  "same_log M (do_meetingname M nick line)"
  "same_log M (do_vote M nick line)"
  "same_log M (do_votesrequired M nick line)"
  "same_log M (do_action M nick line linenum t)"
  "same_log M (do_info M nick line linenum t)"
  "same_log M (do_idea M nick line linenum t)"
  "same_log M (do_help M nick line linenum t)"
  "same_log M (do_link M nick line linenum t)"
  by (simp_all add: same_log_def attendee_count_def additem_def do_topic_def do_subtopic_def
      do_done_def do_agreed_def do_accepted_def do_rejected_def
      do_undo_def do_restrictlogs_def do_lurk_def do_unlurk_def do_meetingname_def
      do_vote_def do_votesrequired_def do_action_def do_info_def do_idea_def do_help_def
      do_link_def)

lemma do_chair_log: "same_log M (do_chair M nick line)"
  by (simp add: do_chair_def do_chair_loop_log same_log_refl)

lemma do_unchair_log: "same_log M (do_unchair M nick line)"
  by (simp add: do_unchair_def do_unchair_loop_log same_log_refl)

lemma do_voters_log: "same_log M (do_voters M nick line)"
  by (simp add: do_voters_def do_voters_loop_log same_log_refl)

lemmas handlers_log =
  same_log_refl simple_handlers_log do_chair_log do_unchair_log do_voters_log do_nick_log
  do_save_log do_startmeeting_log do_endvote_log do_endmeeting_log do_meetingtopic_log

lemma commands_log:
  assumes "map_of commands c = Some h"
  shows "same_log M (fst (h M nick line linenum t now))"
proof -
  have "(c, h) \<in> set commands" using assms by (rule map_of_SomeD)
  then have "h \<in> snd ` set commands" by force
  then show ?thesis
    unfolding commands_def by (auto simp: handlers_log)
qed

section \<open>The claims\<close>

subsection \<open>Reference names: pinned values\<close>

text \<open>
  C6, as stated: the collision counter 26 maps to the suffix "aa". The code yields "ba"
  (quotient 1 gives "b", remainder 0 gives "a"), so the stated value is refuted.
\<close>

theorem C6_inbase_26_counterexample: "inbase 26 0 \<noteq> Inr ''aa''"
  by (simp add: inbase_26)

text \<open>
  C6, amended: in one pass of the reST writer, two items with the same preferred reference
  name (same nick and time) get first the base name and then the base name followed by "a",
  provided neither name is taken yet; and the suffix function maps counter 0 to "a",
  25 to "z" and 26 to "ba".
\<close>

theorem C6_same_name_twice:
  assumes nick: "item_nick m1 \<noteq> []"
    and same: "rstref_orig_of m2 = rstref_orig_of m1" "item_nick m2 \<noteq> []"
    and fresh: "rstref_orig_of m1 \<notin> rst_refs S" "rstref_orig_of m1 @ ''a'' \<notin> rst_refs S"
  shows "\<exists>S1 S2.
           makeRSTref basename m1 S = Inr (rstref_orig_of m1, S1)
         \<and> makeRSTref basename m2 S1 = Inr (rstref_orig_of m1 @ ''a'', S2)
         \<and> inbase 0 0 = Inr ''a'' \<and> inbase 25 0 = Inr ''z'' \<and> inbase 26 0 = Inr ''ba''"
proof -
  let ?b = "rstref_orig_of m1"
  define S1 where "S1 = S\<lparr>rst_urls := rst_urls S @
                      [''.. _'' @ ?b @ '': '' @ logURL basename @ ''#'' @ anchor m1],
                   rst_refs := insert ?b (rst_refs S)\<rparr>"
  have first: "makeRSTref basename m1 S = Inr (?b, S1)"
    using nick fresh(1) by (simp add: makeRSTref_def rstref_loop_free S1_def)
  have in1: "?b \<in> rst_refs S1" by (simp add: S1_def)
  have out1: "?b @ ''a'' \<notin> rst_refs S1" using fresh(2) by (simp add: S1_def)
  have "rstref_loop ?b (rst_refs S1) ?b 0 = Inr (?b @ ''a'')"
    using in1 out1 by (rule rstref_loop_first_collision)
  then have "\<exists>S2. makeRSTref basename m2 S1 = Inr (?b @ ''a'', S2)"
    using same by (simp add: makeRSTref_def)
  then show ?thesis using first inbase_0 inbase_25 inbase_26 by blast
qed

theorem C6_same_name_twice_witness:
  "\<exists>S1 S2.
      makeRSTref ''log'' ex_item \<lparr>rst_urls = [], rst_refs = {}\<rparr> = Inr (''bob-10:00'', S1)
    \<and> makeRSTref ''log'' (ex_item\<lparr>item_linenum := 2\<rparr>) S1 = Inr (''bob-10:00a'', S2)"
  using C6_same_name_twice [of ex_item "ex_item\<lparr>item_linenum := 2\<rparr>"
      "\<lparr>rst_urls = [], rst_refs = {}\<rparr>" "''log''"]
  by (auto simp: ex_item_def rstref_orig_of_def)

end
